theory Spec2Isabelle
  imports Complex_Main "HOL-Library.Word" "HOL-Library.Monad_Syntax"
begin

section \<open>JavaScript values used by AsciiConverter.tsx\<close>

text \<open>
  A JavaScript string is a sequence of UTF-16 code units; \<open>s.length\<close> counts them and
  \<open>s[i]\<close> reads one of them. Every character of the presets lies in the Basic
  Multilingual Plane, so a code unit is written as its number.

  JavaScript numbers are modelled as real numbers: rounding of doubles is not modelled,
  and a computation that would leave the finite numbers (a division by zero, giving
  \<open>Infinity\<close> or \<open>NaN\<close>) is a separate outcome of the model where it can happen.
\<close>

type_synonym code_unit = nat
type_synonym jsstring = "code_unit list"

definition ascii_lit :: "string \<Rightarrow> jsstring" where
  "ascii_lit s = map of_char s"

text \<open>\<open>xs[i]\<close> for a number \<open>i\<close> that is an integer: \<open>undefined\<close> (here \<open>None\<close>)
  outside \<open>0 .. length - 1\<close>.\<close>

definition js_index :: "'a list \<Rightarrow> int \<Rightarrow> 'a option" where
  "js_index xs i = (if 0 \<le> i \<and> i < int (length xs) then Some (xs ! nat i) else None)"

text \<open>String concatenation \<open>ascii += v\<close> converts \<open>v\<close> to a string first: \<open>undefined\<close>
  becomes the nine code units of \<open>"undefined"\<close>.\<close>

definition js_to_string :: "code_unit option \<Rightarrow> jsstring" where
  "js_to_string v = (case v of Some c \<Rightarrow> [c] | None \<Rightarrow> ascii_lit ''undefined'')"

section \<open>pixelToAscii (AsciiConverter.tsx, lines 193-197)\<close>

text \<open>
  \<^verbatim>\<open>
  const pixelToAscii = useCallback((luminance: number, chars: string): string => {
    const normalized = settings.invert ? 1 - luminance : luminance;
    const index = Math.floor(normalized * (chars.length - 1));
    return chars[Math.max(0, Math.min(index, chars.length - 1))];
  }, [settings.invert]);
  \<close>
  \<open>settings.invert\<close> is captured by the closure; it is the first argument here.
\<close>

definition pixelToAscii :: "bool \<Rightarrow> real \<Rightarrow> 'a list \<Rightarrow> 'a option" where
  "pixelToAscii invert luminance chars =
     (let normalized = (if invert then 1 - luminance else luminance);
          index = \<lfloor>normalized * (real_of_int (int (length chars) - 1))\<rfloor>
      in js_index chars (max 0 (min index (int (length chars) - 1))))"

text \<open>The index that \<open>pixelToAscii\<close> reads, as an integer.\<close>

definition rampIndex :: "bool \<Rightarrow> real \<Rightarrow> nat \<Rightarrow> int" where
  "rampIndex invert luminance n =
     max 0 (min \<lfloor>(if invert then 1 - luminance else luminance) * (real_of_int (int n - 1))\<rfloor> (int n - 1))"

section \<open>The settings (AsciiConverter.tsx, lines 47-62)\<close>

record Settings =
  fontSize :: real
  letterSpacing :: real
  lineHeight :: real
  contrast :: real
  brightness :: real
  saturation :: real
  invert :: bool
  grayscale :: bool
  mirrorCamera :: bool
  foregroundColor :: jsstring
  backgroundColor :: jsstring
  asciiSet :: jsstring
  fontFamily :: jsstring
  showStats :: bool

section \<open>processFrame (AsciiConverter.tsx, lines 311-389)\<close>

text \<open>
  What the component reads of the video element and of the page around it: whether the
  refs are set, whether the canvas gives a 2D context, the sample step (\<open>pixelStep\<close>, the
  constant 6 in the component, a setting in its earlier version), the window's size, and
  two services of the browser. The video element shows a frame, \<open>videoFrame x y\<close> being
  its pixel \<open>(x, y)\<close>.
  \<open>drawImage video settings width height x y\<close> is the pixel \<open>(x, y)\<close> of the canvas once
  the current frame of the video has been drawn into \<open>width \<times> height\<close> canvas pixels
  under the filter and the mirroring of the settings (lines 329-345: \<open>ctx.filter\<close>,
  \<open>ctx.scale(-1, 1)\<close> and \<open>ctx.drawImage(video, ...)\<close>); how the browser resamples the
  frame is not in the repository.
  \<open>measureText family px\<close> is the advance width of \<open>M\<close> in the font of lines 205-206,
  and \<open>measureContext\<close> tells whether the scratch canvas of line 201 gives a context.
\<close>

type_synonym rgba = "8 word \<times> 8 word \<times> 8 word \<times> 8 word"

record Video =
  readyState :: nat
  videoWidth :: nat
  videoHeight :: nat
  videoFrame :: "nat \<Rightarrow> nat \<Rightarrow> rgba"

record Page =
  videoRef :: "Video option"
  canvasRef :: bool
  asciiRef :: bool
  isPlaying :: bool
  context2d :: bool
  pixelStep :: nat
  drawImage :: "Video \<Rightarrow> Settings \<Rightarrow> nat \<Rightarrow> nat \<Rightarrow> nat \<Rightarrow> nat \<Rightarrow> rgba"
  innerWidth :: real
  innerHeight :: real
  measureContext :: bool
  measureText :: "jsstring \<Rightarrow> real \<Rightarrow> real"

datatype error =
    IndexSizeError  \<comment> \<open>the DOMException of \<open>getImageData\<close> on an empty rectangle\<close>
  | NonFinite       \<comment> \<open>the arithmetic has left the finite numbers (\<open>Infinity\<close>, \<open>NaN\<close>)\<close>

text \<open>
  \<open>ctx.getImageData(0, 0, sw, sh)\<close>: the browser throws \<open>IndexSizeError\<close> when \<open>sw\<close> or
  \<open>sh\<close> is zero; otherwise \<open>data\<close> holds four bytes per pixel, row by row.
\<close>

definition getImageData :: "(nat \<Rightarrow> nat \<Rightarrow> rgba) \<Rightarrow> nat \<Rightarrow> nat \<Rightarrow> error + 8 word list" where
  "getImageData canvas sw sh =
     (if sw = 0 \<or> sh = 0 then Inl IndexSizeError
      else Inr (concat (map (\<lambda>y. concat (map (\<lambda>x. case canvas x y of
                                                       (r, g, b, a) \<Rightarrow> [r, g, b, a])
                                              [0..<sw]))
                            [0..<sh])))"

text \<open>Line 362: \<open>(0.299 * r + 0.587 * g + 0.114 * b) / 255\<close>.\<close>

definition luminance :: "8 word \<Rightarrow> 8 word \<Rightarrow> 8 word \<Rightarrow> real" where
  "luminance r g b =
     (0.299 * real (unat r) + 0.587 * real (unat g) + 0.114 * real (unat b)) / 255"

text \<open>
  The body of the inner loop (lines 356-365), up to the value handed to \<open>ascii +=\<close>.
  A read past the end of \<open>data\<close> is \<open>undefined\<close>; the luminance is then \<open>NaN\<close>, so is
  the index, and \<open>chars[NaN]\<close> is \<open>undefined\<close>.
\<close>

definition cellAscii :: "bool \<Rightarrow> jsstring \<Rightarrow> 8 word list \<Rightarrow> nat \<Rightarrow> nat \<Rightarrow> nat \<Rightarrow> code_unit option" where
  "cellAscii iv chars data width x y =
     (let index = (y * width + x) * 4 in
      case (js_index data (int index), js_index data (int index + 1), js_index data (int index + 2)) of
        (Some r, Some g, Some b) \<Rightarrow> pixelToAscii iv (luminance r g b) chars
      | _ \<Rightarrow> None)"

text \<open>The inner loop over \<open>x\<close> and the outer loop over \<open>y\<close> (lines 354-368); the line
  break is code unit 10.\<close>

definition rowLoop :: "bool \<Rightarrow> jsstring \<Rightarrow> 8 word list \<Rightarrow> nat \<Rightarrow> nat \<Rightarrow> jsstring \<Rightarrow> jsstring" where
  "rowLoop iv chars data width y ascii =
     foldl (\<lambda>ascii x. ascii @ js_to_string (cellAscii iv chars data width x y)) ascii [0..<width]"

definition frameLoop :: "bool \<Rightarrow> jsstring \<Rightarrow> 8 word list \<Rightarrow> nat \<Rightarrow> nat \<Rightarrow> jsstring" where
  "frameLoop iv chars data width height =
     foldl (\<lambda>ascii y. rowLoop iv chars data width y ascii @ [10]) [] [0..<height]"

text \<open>
  processFrame maps the text shown in the \<open>pre\<close> element (\<open>asciiRef.current.textContent\<close>)
  to the text shown after the tick; an early \<open>return\<close> leaves it as it was. With
  \<open>pixelStep = 0\<close> the canvas size would not be a finite number. The frame statistics
  and the request for the next animation frame (lines 375-388) do not touch the text and
  are left out.
\<close>

definition processFrame :: "Page \<Rightarrow> Settings \<Rightarrow> jsstring \<Rightarrow> error + jsstring" where
  "processFrame env settings textContent =
     (case videoRef env of
        None \<Rightarrow> Inr textContent
      | Some video \<Rightarrow>
          if \<not> canvasRef env \<or> \<not> asciiRef env \<or> \<not> isPlaying env then Inr textContent
          else if \<not> context2d env \<or> readyState video \<noteq> 4 then Inr textContent
          else if pixelStep env = 0 then Inl NonFinite
          else
            let width = videoWidth video div pixelStep env;
                height = videoHeight video div pixelStep env
            in (case getImageData (drawImage env video settings width height) width height of
                  Inl e \<Rightarrow> Inl e
                | Inr data \<Rightarrow>
                    (let ascii = frameLoop (invert settings) (asciiSet settings) data width height
                     in Inr (if asciiRef env then ascii else textContent))))"




section \<open>Constants of the component (AsciiConverter.tsx, lines 11-45 and 85-100)\<close>

definition ASCII_PRESETS :: "jsstring list" where
  \<comment> \<open>\<open>Object.values(ASCII_PRESETS)\<close>, in the order of the object literal\<close>
  "ASCII_PRESETS =
     [[64, 35, 37, 42, 43, 61, 45, 58, 46, 32],
      [64, 32, 46, 61, 43, 35],
      [32, 46, 58, 45, 61, 43, 95, 88],
      [32, 46, 58, 42, 73, 36, 86, 70, 78, 77],
      [32, 46, 39, 58, 44, 34, 45, 95, 43, 61, 94, 34],
      [32, 46, 95, 47],
      [32, 9617, 9618, 9619, 9608],
      [32, 46, 44, 58, 59, 105, 49, 116, 102, 76, 67, 71, 48, 56, 64, 9618, 9619, 9608],
      [32, 9615, 9614, 9613, 9612, 9611, 9610, 9609, 9608],
      [48, 49, 124, 166, 61, 43, 9632],
      [9608, 9619, 9618, 9617, 46, 45, 39, 32, 34],
      [9633, 9642, 9643, 9632, 9650, 9660, 9670, 9724, 9723]]"

definition MONOSPACE_FONTS :: "jsstring list" where
  "MONOSPACE_FONTS = map ascii_lit
     [''JetBrains Mono'', ''Fira Code'', ''Source Code Pro'', ''Roboto Mono'', ''Ubuntu Mono'',
      ''Inconsolata'', ''Space Mono'', ''IBM Plex Mono'', ''PT Mono'', ''Courier Prime'',
      ''Anonymous Pro'', ''Overpass Mono'', ''Share Tech Mono'', ''Nova Mono'', ''VT323'',
      ''Major Mono Display'']"

definition DEFAULT_SETTINGS :: Settings where
  "DEFAULT_SETTINGS = \<lparr>fontSize = 8, letterSpacing = 0, lineHeight = 1, contrast = 100,
     brightness = 100, saturation = 100, invert = False, grayscale = True, mirrorCamera = True,
     foregroundColor = ascii_lit ''#00ff00'', backgroundColor = ascii_lit ''#000000'',
     asciiSet = [64, 35, 37, 42, 43, 61, 45, 58, 46, 32],
     fontFamily = ascii_lit ''JetBrains Mono'', showStats = False\<rparr>"

section \<open>The handlers of the controls (AsciiConverter.tsx, lines 643-685 and 804-810)\<close>

text \<open>
  \<open>autoSizing\<close> (line 133) holds, for each of the three dimensions, whether auto-fit may
  still set it; a dimension is locked when its flag is \<open>false\<close>.
\<close>

record AutoSizing =
  autoFontSize :: bool
  autoLetterSpacing :: bool
  autoLineHeight :: bool





text \<open>The character-set input, line 807:
  \<open>onChange={(e) => setSettings(prev => ({ ...prev, asciiSet: e.target.value }))}\<close>.\<close>

definition onAsciiSetChange :: "jsstring \<Rightarrow> Settings \<Rightarrow> Settings" where
  "onAsciiSetChange v prev = prev\<lparr>asciiSet := v\<rparr>"

section \<open>calculateAutoSize (AsciiConverter.tsx, lines 199-308)\<close>













section \<open>randomizeSettings (AsciiConverter.tsx, lines 64-83 and 457-509)\<close>

record Controls =
  ctlFontSize :: bool
  ctlLetterSpacing :: bool
  ctlLineHeight :: bool
  ctlContrast :: bool
  ctlBrightness :: bool
  ctlSaturation :: bool
  ctlInvert :: bool
  ctlGrayscale :: bool
  ctlMirrorCamera :: bool
  ctlForegroundColor :: bool
  ctlBackgroundColor :: bool
  ctlAsciiSet :: bool
  ctlFontFamily :: bool

record RandomSettings =
  enabled :: bool
  interval :: real
  autoMode :: bool
  controls :: Controls

text \<open>
  \<open>Math.random()\<close> returns a number in \<open>[0, 1)\<close>, a new one at each call. The source of
  randomness is a sequence of reals, and the call number \<open>k\<close> returns the fractional part
  of its element \<open>k\<close>: every number of \<open>[0, 1)\<close> can be returned and no other.
\<close>

definition mathRandom :: "(nat \<Rightarrow> real) \<Rightarrow> nat \<Rightarrow> real" where
  "mathRandom source k = frac (source k)"

text \<open>\<open>n.toString(16)\<close> for a natural number, and \<open>s.padStart(6, '0')\<close>.\<close>

definition hexDigit :: "nat \<Rightarrow> code_unit" where
  "hexDigit d = (if d < 10 then 48 + d else 87 + d)"

fun toString16 :: "nat \<Rightarrow> jsstring" where
  "toString16 n = (if n < 16 then [hexDigit n] else toString16 (n div 16) @ [hexDigit (n mod 16)])"

declare toString16.simps [simp del]

definition padStart :: "jsstring \<Rightarrow> nat \<Rightarrow> code_unit \<Rightarrow> jsstring" where
  "padStart s n c = replicate (n - length s) c @ s"

text \<open>Lines 494 and 497:
  \<open>`#${Math.floor(Math.random() * 16777215).toString(16).padStart(6, '0')}`\<close>.\<close>

definition randomColor :: "real \<Rightarrow> jsstring" where
  "randomColor r = 35 # padStart (toString16 (nat \<lfloor>r * 16777215\<rfloor>)) 6 48"

text \<open>
  The thirteen assignments of lines 463-505, each as a function of the number that its
  \<open>Math.random()\<close> returned; the first three also lock their dimension
  (\<open>setAutoSizing(prev => ({ ...prev, fontSize: false }))\<close>).
\<close>

type_synonym config = "Settings \<times> AutoSizing"

definition drawFontSize :: "real \<Rightarrow> config \<Rightarrow> config" where
  "drawFontSize r = (\<lambda>(s, a).
     (s\<lparr>fontSize := real_of_int \<lfloor>r * (32 - 4)\<rfloor> + 4\<rparr>, a\<lparr>autoFontSize := False\<rparr>))"

definition drawLetterSpacing :: "real \<Rightarrow> config \<Rightarrow> config" where
  "drawLetterSpacing r = (\<lambda>(s, a).
     (s\<lparr>letterSpacing := r * 10 - 2\<rparr>, a\<lparr>autoLetterSpacing := False\<rparr>))"

definition drawLineHeight :: "real \<Rightarrow> config \<Rightarrow> config" where
  "drawLineHeight r = (\<lambda>(s, a).
     (s\<lparr>lineHeight := r * 2.5 + 0.5\<rparr>, a\<lparr>autoLineHeight := False\<rparr>))"

definition drawContrast :: "real \<Rightarrow> config \<Rightarrow> config" where
  "drawContrast r = (\<lambda>(s, a). (s\<lparr>contrast := real_of_int \<lfloor>r * 400\<rfloor>\<rparr>, a))"

definition drawBrightness :: "real \<Rightarrow> config \<Rightarrow> config" where
  "drawBrightness r = (\<lambda>(s, a). (s\<lparr>brightness := real_of_int \<lfloor>r * 400\<rfloor>\<rparr>, a))"

definition drawSaturation :: "real \<Rightarrow> config \<Rightarrow> config" where
  "drawSaturation r = (\<lambda>(s, a). (s\<lparr>saturation := real_of_int \<lfloor>r * 400\<rfloor>\<rparr>, a))"

definition drawInvert :: "real \<Rightarrow> config \<Rightarrow> config" where
  "drawInvert r = (\<lambda>(s, a). (s\<lparr>invert := (r > 0.5)\<rparr>, a))"

definition drawGrayscale :: "real \<Rightarrow> config \<Rightarrow> config" where
  "drawGrayscale r = (\<lambda>(s, a). (s\<lparr>grayscale := (r > 0.5)\<rparr>, a))"

definition drawMirrorCamera :: "real \<Rightarrow> config \<Rightarrow> config" where
  "drawMirrorCamera r = (\<lambda>(s, a). (s\<lparr>mirrorCamera := (r > 0.5)\<rparr>, a))"

definition drawForegroundColor :: "real \<Rightarrow> config \<Rightarrow> config" where
  "drawForegroundColor r = (\<lambda>(s, a). (s\<lparr>foregroundColor := randomColor r\<rparr>, a))"

definition drawBackgroundColor :: "real \<Rightarrow> config \<Rightarrow> config" where
  "drawBackgroundColor r = (\<lambda>(s, a). (s\<lparr>backgroundColor := randomColor r\<rparr>, a))"

text \<open>For \<open>r\<close> in \<open>[0, 1)\<close> the index \<open>floor (r * length)\<close> is within the list.\<close>

definition drawAsciiSet :: "real \<Rightarrow> config \<Rightarrow> config" where
  "drawAsciiSet r = (\<lambda>(s, a).
     (s\<lparr>asciiSet := ASCII_PRESETS ! nat \<lfloor>r * real (length ASCII_PRESETS)\<rfloor>\<rparr>, a))"

definition drawFontFamily :: "real \<Rightarrow> config \<Rightarrow> config" where
  "drawFontFamily r = (\<lambda>(s, a).
     (s\<lparr>fontFamily := MONOSPACE_FONTS ! nat \<lfloor>r * real (length MONOSPACE_FONTS)\<rfloor>\<rparr>, a))"

text \<open>
  \<open>if (randomSettings.controls.f) { ... Math.random() ... }\<close>: when the control is on, the
  assignment is made with the next random number. The state is the configuration and the
  number of calls of \<open>Math.random()\<close> made so far.
\<close>

definition whenControl ::
  "bool \<Rightarrow> (real \<Rightarrow> config \<Rightarrow> config) \<Rightarrow> (nat \<Rightarrow> real) \<Rightarrow> config \<times> nat \<Rightarrow> config \<times> nat" where
  "whenControl c draw source = (\<lambda>(cfg, k).
     if c then (draw (mathRandom source k) cfg, Suc k) else (cfg, k))"

definition randomizeSettings ::
  "RandomSettings \<Rightarrow> (nat \<Rightarrow> real) \<Rightarrow> config \<times> nat \<Rightarrow> config \<times> nat" where
  "randomizeSettings randomSettings source st =
     (if \<not> enabled randomSettings then st
      else
        (let c = controls randomSettings;
             st = whenControl (ctlFontSize c) drawFontSize source st;
             st = whenControl (ctlLetterSpacing c) drawLetterSpacing source st;
             st = whenControl (ctlLineHeight c) drawLineHeight source st;
             st = whenControl (ctlContrast c) drawContrast source st;
             st = whenControl (ctlBrightness c) drawBrightness source st;
             st = whenControl (ctlSaturation c) drawSaturation source st;
             st = whenControl (ctlInvert c) drawInvert source st;
             st = whenControl (ctlGrayscale c) drawGrayscale source st;
             st = whenControl (ctlMirrorCamera c) drawMirrorCamera source st;
             st = whenControl (ctlForegroundColor c) drawForegroundColor source st;
             st = whenControl (ctlBackgroundColor c) drawBackgroundColor source st;
             st = whenControl (ctlAsciiSet c) drawAsciiSet source st;
             st = whenControl (ctlFontFamily c) drawFontFamily source st
         in st))"

text \<open>The settings and the locks after a call of randomizeSettings.\<close>

definition randomized :: "RandomSettings \<Rightarrow> (nat \<Rightarrow> real) \<Rightarrow> config \<Rightarrow> config" where
  "randomized randomSettings source cfg = fst (randomizeSettings randomSettings source (cfg, 0))"

text \<open>The thirteen controls by name, the control of a name, and the settings that differ
  from given ones in the field of that name at most.\<close>

datatype field =
    FontSize | LetterSpacing | LineHeight | Contrast | Brightness | Saturation | Invert
  | Grayscale | MirrorCamera | ForegroundColor | BackgroundColor | AsciiSet | FontFamily

fun control :: "Controls \<Rightarrow> field \<Rightarrow> bool" where
  "control c FontSize = ctlFontSize c"
| "control c LetterSpacing = ctlLetterSpacing c"
| "control c LineHeight = ctlLineHeight c"
| "control c Contrast = ctlContrast c"
| "control c Brightness = ctlBrightness c"
| "control c Saturation = ctlSaturation c"
| "control c Invert = ctlInvert c"
| "control c Grayscale = ctlGrayscale c"
| "control c MirrorCamera = ctlMirrorCamera c"
| "control c ForegroundColor = ctlForegroundColor c"
| "control c BackgroundColor = ctlBackgroundColor c"
| "control c AsciiSet = ctlAsciiSet c"
| "control c FontFamily = ctlFontFamily c"

fun sameExcept :: "field \<Rightarrow> Settings \<Rightarrow> Settings \<Rightarrow> bool" where
  "sameExcept FontSize s s' \<longleftrightarrow> s' = s\<lparr>fontSize := fontSize s'\<rparr>"
| "sameExcept LetterSpacing s s' \<longleftrightarrow> s' = s\<lparr>letterSpacing := letterSpacing s'\<rparr>"
| "sameExcept LineHeight s s' \<longleftrightarrow> s' = s\<lparr>lineHeight := lineHeight s'\<rparr>"
| "sameExcept Contrast s s' \<longleftrightarrow> s' = s\<lparr>contrast := contrast s'\<rparr>"
| "sameExcept Brightness s s' \<longleftrightarrow> s' = s\<lparr>brightness := brightness s'\<rparr>"
| "sameExcept Saturation s s' \<longleftrightarrow> s' = s\<lparr>saturation := saturation s'\<rparr>"
| "sameExcept Invert s s' \<longleftrightarrow> s' = s\<lparr>invert := invert s'\<rparr>"
| "sameExcept Grayscale s s' \<longleftrightarrow> s' = s\<lparr>grayscale := grayscale s'\<rparr>"
| "sameExcept MirrorCamera s s' \<longleftrightarrow> s' = s\<lparr>mirrorCamera := mirrorCamera s'\<rparr>"
| "sameExcept ForegroundColor s s' \<longleftrightarrow> s' = s\<lparr>foregroundColor := foregroundColor s'\<rparr>"
| "sameExcept BackgroundColor s s' \<longleftrightarrow> s' = s\<lparr>backgroundColor := backgroundColor s'\<rparr>"
| "sameExcept AsciiSet s s' \<longleftrightarrow> s' = s\<lparr>asciiSet := asciiSet s'\<rparr>"
| "sameExcept FontFamily s s' \<longleftrightarrow> s' = s\<lparr>fontFamily := fontFamily s'\<rparr>"

text \<open>The controls with exactly one field on, and \<open>DEFAULT_RANDOM_SETTINGS\<close> (lines 102-121)
  with random mode switched on.\<close>

definition onlyControl :: "field \<Rightarrow> Controls" where
  "onlyControl f =
     \<lparr>ctlFontSize = (f = FontSize), ctlLetterSpacing = (f = LetterSpacing),
      ctlLineHeight = (f = LineHeight), ctlContrast = (f = Contrast),
      ctlBrightness = (f = Brightness), ctlSaturation = (f = Saturation),
      ctlInvert = (f = Invert), ctlGrayscale = (f = Grayscale),
      ctlMirrorCamera = (f = MirrorCamera), ctlForegroundColor = (f = ForegroundColor),
      ctlBackgroundColor = (f = BackgroundColor), ctlAsciiSet = (f = AsciiSet),
      ctlFontFamily = (f = FontFamily)\<rparr>"


definition randomMode :: "Controls \<Rightarrow> RandomSettings" where
  "randomMode c = \<lparr>enabled = True, interval = 2000, autoMode = False, controls = c\<rparr>"

section \<open>A concrete scene\<close>

text \<open>A 12 \<times> 12 video, white at its top left pixel and black elsewhere, sampled with step
  6 on a page whose canvas comes out 2 \<times> 2, white at the top left and black elsewhere; the
  character set is a space followed by \<open>#\<close>.\<close>

definition sceneVideo :: Video where
  "sceneVideo = \<lparr>readyState = 4, videoWidth = 12, videoHeight = 12,
                  videoFrame = (\<lambda>x y. if x = 0 \<and> y = 0 then (255, 255, 255, 255)
                                       else (0, 0, 0, 255))\<rparr>"

definition sceneEnv :: Page where
  "sceneEnv = \<lparr>videoRef = Some sceneVideo, canvasRef = True, asciiRef = True, isPlaying = True,
                 context2d = True, pixelStep = 6,
                 drawImage = (\<lambda>video settings width height x y.
                    if x = 0 \<and> y = 0 then (255, 255, 255, 255) else (0, 0, 0, 255)),
                 innerWidth = 1280, innerHeight = 720, measureContext = False,
                 measureText = (\<lambda>family px. 0)\<rparr>"

definition sceneSettings :: Settings where
  "sceneSettings = \<lparr>fontSize = 8, letterSpacing = 0, lineHeight = 1, contrast = 100,
     brightness = 100, saturation = 100, invert = False, grayscale = False, mirrorCamera = False,
     foregroundColor = ascii_lit ''#00ff00'', backgroundColor = ascii_lit ''#000000'',
     asciiSet = [32, 35], fontFamily = ascii_lit ''JetBrains Mono'', showStats = False\<rparr>"



definition allAuto :: AutoSizing where
  "allAuto = \<lparr>autoFontSize = True, autoLetterSpacing = True, autoLineHeight = True\<rparr>"

section \<open>The sampling that the specification describes\<close>





section \<open>Properties of pixelToAscii\<close>

lemma pixelToAscii_rampIndex:
  "pixelToAscii iv lum chars = js_index chars (rampIndex iv lum (length chars))"
  by (simp add: pixelToAscii_def rampIndex_def Let_def)

lemma rampIndex_bounds:
  assumes "0 < n"
  shows "0 \<le> rampIndex iv lum n" and "rampIndex iv lum n < int n"
  using assms by (simp_all add: rampIndex_def)

lemma pixelToAscii_nonempty:
  assumes "chars \<noteq> []"
  shows "pixelToAscii iv lum chars
           = Some (chars ! nat (rampIndex iv lum (length chars)))"
proof -
  have "0 < length chars" using assms by simp
  then show ?thesis
    using rampIndex_bounds [of "length chars" iv lum]
    by (simp add: pixelToAscii_rampIndex js_index_def)
qed

lemma pixelToAscii_empty: "pixelToAscii iv lum [] = None"
  by (simp add: pixelToAscii_def js_index_def Let_def)

text \<open>
  C10. For every real luminance, inside or outside \<open>[0, 1]\<close>, and every non-empty
  character set, the index that pixelToAscii reads is clamped to \<open>[0, length - 1]\<close>, so
  the read is in bounds and the result is a character of the set (never \<open>undefined\<close>).
\<close>

theorem pixelToAscii_total:
  assumes "chars \<noteq> []"
  shows "\<exists>i. 0 \<le> i \<and> i < int (length chars)
           \<and> i = max 0 (min \<lfloor>(if iv then 1 - lum else lum)
                                 * real_of_int (int (length chars) - 1)\<rfloor>
                             (int (length chars) - 1))
           \<and> pixelToAscii iv lum chars = Some (chars ! nat i)
           \<and> chars ! nat i \<in> set chars"
proof -
  let ?i = "rampIndex iv lum (length chars)"
  have pos: "0 < length chars" using assms by simp
  have b: "0 \<le> ?i" "?i < int (length chars)"
    using rampIndex_bounds [OF pos] by simp_all
  have "nat ?i < length chars" using b by simp
  then have "chars ! nat ?i \<in> set chars" by simp
  moreover have "pixelToAscii iv lum chars = Some (chars ! nat ?i)"
    using assms by (rule pixelToAscii_nonempty)
  moreover have "?i = max 0 (min \<lfloor>(if iv then 1 - lum else lum)
                                 * real_of_int (int (length chars) - 1)\<rfloor>
                             (int (length chars) - 1))"
    by (simp add: rampIndex_def)
  ultimately show ?thesis using b by blast
qed

theorem pixelToAscii_total_witness:
  "pixelToAscii True (-7 / 2) [64 :: nat, 35, 32] = Some 32
   \<and> pixelToAscii False (5 / 2) [64 :: nat, 35, 32] = Some 32
   \<and> pixelToAscii False (-1) [64 :: nat, 35, 32] = Some 64"
proof -
  have ne: "[64 :: nat, 35, 32] \<noteq> []" by simp
  from pixelToAscii_total [OF ne, of True "-7 / 2"]
  have a: "pixelToAscii True (-7 / 2) [64 :: nat, 35, 32] = Some 32" by auto
  from pixelToAscii_total [OF ne, of False "5 / 2"]
  have b: "pixelToAscii False (5 / 2) [64 :: nat, 35, 32] = Some 32" by auto
  from pixelToAscii_total [OF ne, of False "-1"]
  have c: "pixelToAscii False (-1) [64 :: nat, 35, 32] = Some 64" by auto
  from a b c show ?thesis by simp
qed

section \<open>The loops of processFrame\<close>







lemma getImageData_zero: "sw = 0 \<or> sh = 0 \<Longrightarrow> getImageData canvas sw sh = Inl IndexSizeError"
  by (simp add: getImageData_def)









lemma scene_text: "processFrame sceneEnv sceneSettings [] = Inr [35, 32, 10, 32, 32, 10]"
  by code_simp



section \<open>Auto-fit with nothing locked\<close>










section \<open>Change suppression and repeated auto-fit\<close>











section \<open>randomizeSettings\<close>


lemma whenControl_config:
  "fst (whenControl c draw source st)
     = (if c then draw (mathRandom source (snd st)) (fst st) else fst st)"
  by (simp add: whenControl_def split_beta)

lemma whenControl_off: "whenControl False draw source st = st"
  by (simp add: whenControl_def split_beta)

lemma whenControl_on:
  "whenControl True draw source st = (draw (mathRandom source (snd st)) (fst st), Suc (snd st))"
  by (simp add: whenControl_def split_beta)

lemmas draw_defs =
  drawFontSize_def drawLetterSpacing_def drawLineHeight_def drawContrast_def drawBrightness_def
  drawSaturation_def drawInvert_def drawGrayscale_def drawMirrorCamera_def
  drawForegroundColor_def drawBackgroundColor_def drawAsciiSet_def drawFontFamily_def

lemma draw_locks:
  "snd (drawFontSize r cfg) = (snd cfg)\<lparr>autoFontSize := False\<rparr>"
  "snd (drawLetterSpacing r cfg) = (snd cfg)\<lparr>autoLetterSpacing := False\<rparr>"
  "snd (drawLineHeight r cfg) = (snd cfg)\<lparr>autoLineHeight := False\<rparr>"
  "snd (drawContrast r cfg) = snd cfg"
  "snd (drawBrightness r cfg) = snd cfg"
  "snd (drawSaturation r cfg) = snd cfg"
  "snd (drawInvert r cfg) = snd cfg"
  "snd (drawGrayscale r cfg) = snd cfg"
  "snd (drawMirrorCamera r cfg) = snd cfg"
  "snd (drawForegroundColor r cfg) = snd cfg"
  "snd (drawBackgroundColor r cfg) = snd cfg"
  "snd (drawAsciiSet r cfg) = snd cfg"
  "snd (drawFontFamily r cfg) = snd cfg"
  by (simp_all add: draw_defs split_beta)

lemma whenControl_locks:
  "snd (fst (whenControl c draw source st))
     = (if c then snd (draw (mathRandom source (snd st)) (fst st)) else snd (fst st))"
  by (simp add: whenControl_config)

lemma randomized_locks:
  assumes "enabled rs"
  shows "snd (randomized rs source (s, a))
           = \<lparr>autoFontSize = autoFontSize a \<and> \<not> ctlFontSize (controls rs),
              autoLetterSpacing = autoLetterSpacing a \<and> \<not> ctlLetterSpacing (controls rs),
              autoLineHeight = autoLineHeight a \<and> \<not> ctlLineHeight (controls rs)\<rparr>"
  using assms
  by (simp add: randomized_def randomizeSettings_def Let_def whenControl_locks draw_locks)

lemma exactly_one_control:
  assumes "\<forall>g. control c g = (g = f)"
  shows "c = onlyControl f"
proof -
  have "ctlFontSize c = (f = FontSize)" "ctlLetterSpacing c = (f = LetterSpacing)"
    "ctlLineHeight c = (f = LineHeight)" "ctlContrast c = (f = Contrast)"
    "ctlBrightness c = (f = Brightness)" "ctlSaturation c = (f = Saturation)"
    "ctlInvert c = (f = Invert)" "ctlGrayscale c = (f = Grayscale)"
    "ctlMirrorCamera c = (f = MirrorCamera)" "ctlForegroundColor c = (f = ForegroundColor)"
    "ctlBackgroundColor c = (f = BackgroundColor)" "ctlAsciiSet c = (f = AsciiSet)"
    "ctlFontFamily c = (f = FontFamily)"
    using assms [rule_format, of FontSize] assms [rule_format, of LetterSpacing]
      assms [rule_format, of LineHeight] assms [rule_format, of Contrast]
      assms [rule_format, of Brightness] assms [rule_format, of Saturation]
      assms [rule_format, of Invert] assms [rule_format, of Grayscale]
      assms [rule_format, of MirrorCamera] assms [rule_format, of ForegroundColor]
      assms [rule_format, of BackgroundColor] assms [rule_format, of AsciiSet]
      assms [rule_format, of FontFamily]
    by auto
  then show ?thesis by (cases c) (simp add: onlyControl_def)
qed

lemma randomized_only:
  assumes "enabled rs" and "controls rs = onlyControl f"
  shows "sameExcept f s (fst (randomized rs source (s, a)))"
  using assms
  by (cases f)
     (simp_all add: randomized_def randomizeSettings_def Let_def onlyControl_def
        whenControl_off whenControl_on draw_defs)


text \<open>
  C9. With random mode on and exactly one control on, randomizeSettings gives settings
  that differ from the previous ones in the field of that control at most. Whatever the
  controls, a dimension among fontSize, letterSpacing and lineHeight whose control is on
  (so that a value is drawn for it) is locked afterwards, its \<open>autoSizing\<close> flag being
  \<open>false\<close>; the flag of a dimension whose control is off is left as it was.
\<close>

theorem randomize_single_field:
  assumes "enabled rs"
  shows "((\<forall>g. control (controls rs) g = (g = f))
            \<longrightarrow> sameExcept f s (fst (randomized rs source (s, a))))
       \<and> (ctlFontSize (controls rs) \<longrightarrow> \<not> autoFontSize (snd (randomized rs source (s, a))))
       \<and> (ctlLetterSpacing (controls rs)
            \<longrightarrow> \<not> autoLetterSpacing (snd (randomized rs source (s, a))))
       \<and> (ctlLineHeight (controls rs) \<longrightarrow> \<not> autoLineHeight (snd (randomized rs source (s, a))))
       \<and> (\<not> ctlFontSize (controls rs)
            \<longrightarrow> autoFontSize (snd (randomized rs source (s, a))) = autoFontSize a)
       \<and> (\<not> ctlLetterSpacing (controls rs)
            \<longrightarrow> autoLetterSpacing (snd (randomized rs source (s, a))) = autoLetterSpacing a)
       \<and> (\<not> ctlLineHeight (controls rs)
            \<longrightarrow> autoLineHeight (snd (randomized rs source (s, a))) = autoLineHeight a)"
proof -
  have "sameExcept f s (fst (randomized rs source (s, a)))"
    if "\<forall>g. control (controls rs) g = (g = f)"
    using randomized_only [OF assms exactly_one_control [OF that]] .
  then show ?thesis
    by (simp add: randomized_locks [OF assms])
qed

theorem randomize_single_field_witness:
  "randomized (randomMode (onlyControl FontSize)) (\<lambda>k. 7 / 2) (DEFAULT_SETTINGS, allAuto)
     = (DEFAULT_SETTINGS\<lparr>fontSize := 18\<rparr>, allAuto\<lparr>autoFontSize := False\<rparr>)"
proof -
  let ?rs = "randomMode (onlyControl FontSize)"
  let ?out = "randomized ?rs (\<lambda>k. 7 / 2) (DEFAULT_SETTINGS, allAuto)"
  have en: "enabled ?rs" by (simp add: randomMode_def)
  have one: "\<forall>g. control (controls ?rs) g = (g = FontSize)"
  proof
    fix g show "control (controls ?rs) g = (g = FontSize)"
      by (cases g) (simp_all add: randomMode_def onlyControl_def)
  qed
  have c: "ctlFontSize (controls ?rs)" "\<not> ctlLetterSpacing (controls ?rs)"
    "\<not> ctlLineHeight (controls ?rs)"
    by (simp_all add: randomMode_def onlyControl_def)
  have fs: "fontSize (fst ?out) = 18"
    by (simp add: randomized_def randomizeSettings_def Let_def randomMode_def onlyControl_def
          whenControl_off whenControl_on drawFontSize_def mathRandom_def frac_def)
  from randomize_single_field [OF en, of FontSize DEFAULT_SETTINGS "\<lambda>k. 7 / 2" allAuto] one c
  have s': "fst ?out = DEFAULT_SETTINGS\<lparr>fontSize := fontSize (fst ?out)\<rparr>"
    and l: "\<not> autoFontSize (snd ?out)" "autoLetterSpacing (snd ?out)" "autoLineHeight (snd ?out)"
    by (simp_all add: allAuto_def)
  have "snd ?out = allAuto\<lparr>autoFontSize := False\<rparr>"
    using l by (cases "snd ?out") (simp add: allAuto_def)
  moreover have "fst ?out = DEFAULT_SETTINGS\<lparr>fontSize := 18\<rparr>"
    using s' fs by simp
  ultimately show ?thesis by (simp add: prod_eq_iff)
qed

section \<open>The bounds of the glyph geometry\<close>










section \<open>Frames that are not rendered, and the character-set input\<close>




text \<open>
  C5, as the code has it. The character-set input applies whatever is entered, the empty
  string included: \<open>asciiSet\<close> becomes the entered value and no other setting changes.
  For every entered value that is not empty, conversion reads the set within bounds and
  returns one of its characters.
\<close>

theorem asciiSet_input_applied:
  "onAsciiSetChange v prev = prev\<lparr>asciiSet := v\<rparr>
   \<and> asciiSet (onAsciiSetChange v prev) = v
   \<and> (v \<noteq> [] \<longrightarrow> (\<exists>c \<in> set v. pixelToAscii iv lum (asciiSet (onAsciiSetChange v prev)) = Some c))"
proof -
  have "\<exists>c \<in> set v. pixelToAscii iv lum v = Some c" if "v \<noteq> []"
  proof -
    have "0 < length v" using that by simp
    from rampIndex_bounds [OF this, of iv lum]
    have "nat (rampIndex iv lum (length v)) < length v" by simp
    then have "v ! nat (rampIndex iv lum (length v)) \<in> set v" by simp
    then show ?thesis using pixelToAscii_nonempty [OF that, of iv lum] by simp
  qed
  then show ?thesis by (simp add: onAsciiSetChange_def)
qed

theorem asciiSet_input_applied_witness:
  "asciiSet (onAsciiSetChange [32, 35] DEFAULT_SETTINGS) = [32, 35]
   \<and> (\<exists>c \<in> set [32, 35 :: nat].
         pixelToAscii False (1 / 2) (asciiSet (onAsciiSetChange [32, 35] DEFAULT_SETTINGS)) = Some c)"
proof -
  have ne: "[32, 35 :: nat] \<noteq> []" by simp
  from asciiSet_input_applied [of "[32, 35]" DEFAULT_SETTINGS False "1 / 2"] ne
  show ?thesis by blast
qed

text \<open>
  Entering the empty string over the default settings leaves \<open>asciiSet\<close> empty, although
  the character set before was not; pixelToAscii then returns \<open>undefined\<close>, and the 2 \<times> 2
  scene is rendered as the word \<open>undefined\<close> once per cell.
\<close>

theorem empty_asciiSet_applied:
  "asciiSet (onAsciiSetChange [] DEFAULT_SETTINGS) = []
   \<and> asciiSet DEFAULT_SETTINGS \<noteq> []
   \<and> pixelToAscii False 0 (asciiSet (onAsciiSetChange [] DEFAULT_SETTINGS)) = None
   \<and> processFrame sceneEnv (onAsciiSetChange [] sceneSettings) []
       = Inr (ascii_lit ''undefinedundefined'' @ [10] @ ascii_lit ''undefinedundefined'' @ [10])"
  by (simp add: onAsciiSetChange_def DEFAULT_SETTINGS_def pixelToAscii_empty) code_simp

section \<open>Values drawn by randomizeSettings\<close>

lemma toString16_example: "toString16 8388607 = ascii_lit ''7fffff''"
  by (simp add: toString16.simps hexDigit_def ascii_lit_def)

lemma randomColor_example:
  "randomColor (1 / 2) = ascii_lit ''#7fffff''"
  by (simp add: randomColor_def padStart_def toString16.simps hexDigit_def ascii_lit_def)

lemma presets_nonempty: "\<forall>p \<in> set ASCII_PRESETS. p \<noteq> []"
  by (simp add: ASCII_PRESETS_def)

lemma drawAsciiSet_nonempty:
  assumes "0 \<le> r" and "r < 1"
  shows "asciiSet (fst (drawAsciiSet r cfg)) \<noteq> []"
proof -
  have "0 \<le> r * 12" "r * 12 < 12" using assms by simp_all
  then have "0 \<le> \<lfloor>r * 12\<rfloor>" "\<lfloor>r * 12\<rfloor> < 12" by (simp_all add: floor_less_iff)
  moreover have len: "length ASCII_PRESETS = 12" by (simp add: ASCII_PRESETS_def)
  ultimately have "nat \<lfloor>r * 12\<rfloor> < length ASCII_PRESETS" by (simp only: len)
  then have "ASCII_PRESETS ! nat \<lfloor>r * 12\<rfloor> \<in> set ASCII_PRESETS" by simp
  then have "ASCII_PRESETS ! nat \<lfloor>r * 12\<rfloor> \<noteq> []" using presets_nonempty by blast
  then show ?thesis by (simp add: drawAsciiSet_def split_beta len)
qed

section \<open>The pixel behind a cell\<close>












end
